theory Spec2Isabelle
  imports Complex_Main "HOL-Library.Log_Nat"
begin

section \<open>Python floats\<close>

text \<open>
  The indicators, the literals \<open>0.6\<close>, \<open>0.4\<close>, ... and every result of \<open>*\<close>, \<open>+\<close>,
  \<open>-\<close> and \<open>/\<close> in \<open>app.py\<close> are Python floats (IEEE binary64). A finite float is
  modelled by the rational number it denotes. \<open>fl\<close> rounds a rational to the nearest
  number with a 53-bit significand, ties to the even significand, which is what every
  float literal and every arithmetic operation does to its exact result. The exponent
  range is not bounded here: the slider values are between 0 and 100, so no intermediate
  result comes near the overflow or subnormal range of binary64. NaN and the infinities
  are not modelled.
\<close>

type_synonym pyfloat = rat

definition pow2 :: "int \<Rightarrow> rat" where
  "pow2 e = (if 0 \<le> e then 2 ^ nat e else 1 / 2 ^ nat (- e))"

definition ilog2 :: "rat \<Rightarrow> int" where
  \<comment> \<open>for \<open>0 < x\<close>: the exponent \<open>e\<close> with \<open>2 ^ e \<le> x < 2 ^ (e + 1)\<close>\<close>
  "ilog2 x = (case quotient_of x of (p, q) \<Rightarrow>
     (let d = bitlen p - bitlen q in if pow2 d \<le> x then d else d - 1))"

definition round_half_even :: "rat \<Rightarrow> int" where
  "round_half_even m = (let f = \<lfloor>m\<rfloor>; r = m - of_int f in
     if r < 1 / 2 then f else if 1 / 2 < r then f + 1 else if even f then f else f + 1)"

definition fl :: "rat \<Rightarrow> pyfloat" where
  "fl x = (if x = 0 then 0
     else (let q = pow2 (ilog2 \<bar>x\<bar> - 52) in of_int (round_half_even (x / q)) * q))"

definition float_of_int :: "int \<Rightarrow> pyfloat" where
  \<comment> \<open>the conversion Python applies to the int operand of \<open>int * float\<close> and \<open>float / int\<close>\<close>
  "float_of_int n = fl (of_int n)"

definition fmul :: "pyfloat \<Rightarrow> pyfloat \<Rightarrow> pyfloat" where
  "fmul a b = fl (a * b)"

definition fadd :: "pyfloat \<Rightarrow> pyfloat \<Rightarrow> pyfloat" where
  "fadd a b = fl (a + b)"

definition fsub :: "pyfloat \<Rightarrow> pyfloat \<Rightarrow> pyfloat" where
  "fsub a b = fl (a - b)"

definition fdiv :: "pyfloat \<Rightarrow> pyfloat \<Rightarrow> pyfloat" where
  \<comment> \<open>only ever called with the divisor 100, so Python's ZeroDivisionError cannot occur\<close>
  "fdiv a b = fl (a / b)"

section \<open>Goal-based suggestions\<close>

text \<open>
  The texts are the string literals of \<open>generate_suggestions\<close>; a character outside
  ASCII (the leading emoji, the dash) is written as its UTF-8 bytes.
\<close>

definition msg_retirement_base :: string where
  "msg_retirement_base =
     [CHR 0xF0, CHR 0x9F, CHR 0x92, CHR 0xBC] @ '' Contribute regularly to retirement accounts (e.g., 401(k), IRA).''"

definition msg_retirement_inflation :: string where
  "msg_retirement_inflation =
     [CHR 0xF0, CHR 0x9F, CHR 0x9B, CHR 0xA1, CHR 0xEF, CHR 0xB8, CHR 0x8F] @ '' Use inflation-protected assets like TIPS and dividend-paying stocks.''"

definition msg_retirement_balanced :: string where
  "msg_retirement_balanced =
     [CHR 0xF0, CHR 0x9F, CHR 0x93, CHR 0x88] @ '' Consider a balanced mix of stocks and bonds.''"

definition msg_home_base :: string where
  "msg_home_base =
     [CHR 0xF0, CHR 0x9F, CHR 0x8F, CHR 0xA0] @ '' Start or grow a high-yield savings account for your down payment.''"

definition msg_home_rates_high :: string where
  "msg_home_rates_high =
     [CHR 0xE2, CHR 0x8F, CHR 0xB3] @ '' Mortgage rates are high'' @ [CHR 0xE2, CHR 0x80, CHR 0x94] @ ''consider delaying purchase or locking rates now.''"

definition msg_home_rates_low :: string where
  "msg_home_rates_low =
     [CHR 0xE2, CHR 0x9C, CHR 0x85] @ '' Low rates'' @ [CHR 0xE2, CHR 0x80, CHR 0x94] @ ''evaluate mortgage options and affordability.''"

definition msg_growth_base :: string where
  "msg_growth_base =
     [CHR 0xF0, CHR 0x9F, CHR 0x9A, CHR 0x80] @ '' Focus on long-term growth assets like ETFs, tech stocks, or index funds.''"

definition msg_growth_strong :: string where
  "msg_growth_strong =
     [CHR 0xF0, CHR 0x9F, CHR 0x8C, CHR 0xB1] @ '' Strong economy supports aggressive growth investing.''"

definition msg_growth_diversify :: string where
  "msg_growth_diversify =
     [CHR 0xF0, CHR 0x9F, CHR 0x94, CHR 0x8D] @ '' Diversify with stable sectors (e.g., healthcare, utilities) for balance.''"

definition msg_select_goal :: string where
  "msg_select_goal =
     ''Select a goal to see personalized tips.''"

text \<open>
  \<open>suggestions\<close> is the local list of the function: it starts empty at every call and
  each \<open>append\<close> returns the extended list. The goal is compared with \<open>==\<close> against
  three strings; every other value takes the final \<open>else\<close>.
\<close>

definition generate_suggestions ::
  "string \<Rightarrow> pyfloat \<Rightarrow> pyfloat \<Rightarrow> pyfloat \<Rightarrow> pyfloat \<Rightarrow> string list" where
  "generate_suggestions goal gdp inflation unemployment interest_rate =
     (let suggestions = [] in
      if goal = ''Retirement'' then
        (let suggestions = suggestions @ [msg_retirement_base] in
         if 4 < inflation then suggestions @ [msg_retirement_inflation]
         else suggestions @ [msg_retirement_balanced])
      else if goal = ''Buying a Home'' then
        (let suggestions = suggestions @ [msg_home_base] in
         if 5 < interest_rate then suggestions @ [msg_home_rates_high]
         else suggestions @ [msg_home_rates_low])
      else if goal = ''Wealth Growth'' then
        (let suggestions = suggestions @ [msg_growth_base] in
         if 2 < gdp \<and> inflation < 4 then suggestions @ [msg_growth_strong]
         else suggestions @ [msg_growth_diversify])
      else suggestions @ [msg_select_goal])"

section \<open>Tax efficiency tips\<close>

definition tip_capital_gains :: string where
  "tip_capital_gains =
     ''Consider holding stocks long-term (over 1 year) to benefit from lower capital gains tax rates.''"

definition tip_municipal :: string where
  "tip_municipal =
     ''Municipal bonds generate tax-free income at the federal level. Good choice!''"

definition tip_high_turnover :: string where
  "tip_high_turnover =
     ''Consider moving high-turnover funds to tax-advantaged accounts (like an IRA) to avoid annual tax drag.''"

definition tip_tax_efficient :: string where
  "tip_tax_efficient =
     ''Your portfolio looks tax-efficient. Remember to consult a tax professional.''"

text \<open>
  The data frame \<open>alloc_df\<close> has the columns \<open>Asset Class\<close> and \<open>Allocation %\<close>: a list
  of rows in order. \<open>class_exceeds df c n\<close> is the test
  \<open>c in df['Asset Class'].values and df.loc[df['Asset Class'] == c, 'Allocation %'].values[0] > n\<close>:
  false when no row has the class (the \<open>and\<close> does not evaluate its right operand then),
  otherwise decided by the first row of that class.
\<close>

type_synonym data_frame = "(string \<times> int) list"

definition class_exceeds :: "data_frame \<Rightarrow> string \<Rightarrow> int \<Rightarrow> bool" where
  "class_exceeds df c n = (case map_of df c of None \<Rightarrow> False | Some v \<Rightarrow> n < v)"

definition tax_efficiency_tips :: "data_frame \<Rightarrow> string list" where
  "tax_efficiency_tips alloc_df =
     (let tips = [];
          tips = (if class_exceeds alloc_df ''Stocks'' 50 then tips @ [tip_capital_gains] else tips);
          tips = (if class_exceeds alloc_df ''Municipal Bonds'' 0 then tips @ [tip_municipal] else tips);
          tips = (if class_exceeds alloc_df ''High Turnover Funds'' 10
                  then tips @ [tip_high_turnover] else tips);
          tips = (if tips = [] then tips @ [tip_tax_efficient] else tips)
      in tips)"

section \<open>Market summary for the selected date\<close>

text \<open>
  Lines 243 to 257 of the script: the variables \<open>risk_level\<close> and \<open>tips\<close> of the second
  tab, as functions of the indicators of the selected row.
\<close>

definition market_risk_level :: "pyfloat \<Rightarrow> pyfloat \<Rightarrow> pyfloat \<Rightarrow> string" where
  "market_risk_level inflation unemployment interest_rate =
     (let risk_level = ''Moderate'' in
      if 5 < inflation \<or> 8 < unemployment \<or> 6 < interest_rate then ''High''
      else if inflation < 2 \<and> unemployment < 5 \<and> interest_rate < 3 then ''Low''
      else risk_level)"

definition tip_inflation_hedge :: string where
  "tip_inflation_hedge =
     ''Inflation was high. Consider assets like gold and real estate to hedge.''"

definition tip_equities :: string where
  "tip_equities =
     ''Strong GDP growth detected. Equities may have been a good investment.''"

definition tip_stable :: string where
  "tip_stable =
     ''Market conditions appear stable. A balanced portfolio is recommended.''"

definition market_tips :: "pyfloat \<Rightarrow> pyfloat \<Rightarrow> string list" where
  "market_tips inflation gdp_growth =
     (let tips = [];
          tips = (if 3 < inflation then tips @ [tip_inflation_hedge] else tips);
          tips = (if 5 / 2 < gdp_growth then tips @ [tip_equities] else tips);
          tips = (if tips = [] then tips @ [tip_stable] else tips)
      in tips)"

section \<open>Portfolio builder\<close>

text \<open>
  Lines 269 to 310 of the script. The four sliders return Python ints between 0 and 100,
  so their sum is anything between 0 and 400. The calls that only draw (\<open>st.metric\<close>,
  the chart, the table) are left out; the messages passed to \<open>st.error\<close>, \<open>st.success\<close>
  and \<open>st.warning\<close> are kept as values.

  \<open>st.progress\<close> (line 276) is a call into the Streamlit library, which is not part of
  the repository. Given an int, the library accepts the values 0 to 100 and raises
  \<open>StreamlitAPIException\<close> for any other; \<open>st_progress\<close> records that check. The
  exception is not caught anywhere in the script, so the run ends at line 276.
\<close>

datatype st_exception = StreamlitAPIException

definition st_progress :: "int \<Rightarrow> st_exception + unit" where
  "st_progress v = (if 0 \<le> v \<and> v \<le> 100 then Inr () else Inl StreamlitAPIException)"

datatype st_alert = St_error string | St_success string | St_warning string

definition digit_char :: "nat \<Rightarrow> char" where
  "digit_char d = ''0123456789'' ! d"

fun str_nat :: "nat \<Rightarrow> string" where
  "str_nat n = (if n < 10 then [digit_char n] else str_nat (n div 10) @ [digit_char (n mod 10)])"

definition str_int :: "int \<Rightarrow> string" where
  "str_int i = (if i < 0 then ''-'' @ str_nat (nat (- i)) else str_nat (nat i))"

definition total_alloc :: "int \<Rightarrow> int \<Rightarrow> int \<Rightarrow> int \<Rightarrow> int" where
  "total_alloc stocks bonds real_estate cash = stocks + bonds + real_estate + cash"

definition total_message :: "int \<Rightarrow> st_alert" where
  "total_message tot =
     (if tot \<noteq> 100
      then St_error (''Total allocation is '' @ str_int tot @ ''%. It must sum to 100%.'')
      else St_success ''Total allocation is 100%.'')"

definition risk_score :: "int \<Rightarrow> int \<Rightarrow> int \<Rightarrow> int \<Rightarrow> pyfloat" where
  "risk_score stocks bonds real_estate cash =
     fdiv (fsub (fsub (fadd (fmul (float_of_int stocks) (fl (6 / 10)))
                            (fmul (float_of_int real_estate) (fl (3 / 10))))
                      (fmul (float_of_int bonds) (fl (4 / 10))))
                (fmul (float_of_int cash) (fl (5 / 10))))
          (float_of_int 100)"

definition portfolio_risk_level :: "pyfloat \<Rightarrow> string" where
  "portfolio_risk_level score =
     (if fl (4 / 10) < score then ''High'' else if fl (15 / 100) < score then ''Medium'' else ''Low'')"

definition expected_return :: "int \<Rightarrow> int \<Rightarrow> int \<Rightarrow> int \<Rightarrow> pyfloat" where
  "expected_return stocks bonds real_estate cash =
     fdiv (fadd (fadd (fadd (fmul (float_of_int stocks) (fl (8 / 100)))
                            (fmul (float_of_int bonds) (fl (3 / 100))))
                      (fmul (float_of_int real_estate) (fl (6 / 100))))
                (fmul (float_of_int cash) (fl (2 / 100))))
          (float_of_int 100)"

definition volatility :: "int \<Rightarrow> int \<Rightarrow> int \<Rightarrow> int \<Rightarrow> pyfloat" where
  "volatility stocks bonds real_estate cash =
     fdiv (fadd (fadd (fadd (fmul (float_of_int stocks) (fl (15 / 100)))
                            (fmul (float_of_int bonds) (fl (5 / 100))))
                      (fmul (float_of_int real_estate) (fl (1 / 10))))
                (fmul (float_of_int cash) (fl (1 / 100))))
          (float_of_int 100)"

definition alert_high :: string where
  "alert_high =
     [CHR 0xE2, CHR 0x9A, CHR 0xA0, CHR 0xEF, CHR 0xB8, CHR 0x8F] @ '' High Risk Alert: Your portfolio allocation is aggressive and may see high volatility.''"

definition alert_moderate :: string where
  "alert_moderate =
     [CHR 0xE2, CHR 0x9A, CHR 0xA0, CHR 0xEF, CHR 0xB8, CHR 0x8F] @ '' Moderate Risk: Your portfolio is balanced but carries a moderate level of risk.''"

definition alert_low :: string where
  "alert_low =
     [CHR 0xE2, CHR 0x9C, CHR 0x85] @ '' Low Risk: Your portfolio is conservative and prioritizes capital preservation.''"

definition risk_alert :: "pyfloat \<Rightarrow> st_alert" where
  "risk_alert score =
     (if fl (4 / 10) < score then St_error alert_high
      else if fl (15 / 100) < score then St_warning alert_moderate
      else St_success alert_low)"

definition alloc_df :: "int \<Rightarrow> int \<Rightarrow> int \<Rightarrow> int \<Rightarrow> data_frame" where
  "alloc_df stocks bonds real_estate cash =
     [(''Stocks'', stocks), (''Bonds'', bonds), (''Real Estate'', real_estate), (''Cash'', cash)]"

text \<open>
  Everything the third tab derives from one setting of the sliders, in the order of the
  script: the sum, the progress bar, which may raise, and only then the message and the
  metrics.
\<close>

record portfolio_summary =
  ps_total_message :: st_alert
  ps_risk_score :: pyfloat
  ps_risk_level :: string
  ps_expected_return :: pyfloat
  ps_volatility :: pyfloat
  ps_risk_alert :: st_alert
  ps_tax_tips :: "string list"

definition portfolio_builder ::
  "int \<Rightarrow> int \<Rightarrow> int \<Rightarrow> int \<Rightarrow> st_exception + portfolio_summary" where
  "portfolio_builder stocks bonds real_estate cash =
     (let tot = total_alloc stocks bonds real_estate cash in
      case st_progress tot of
        Inl e \<Rightarrow> Inl e
      | Inr u \<Rightarrow>
          (let message = total_message tot;
               score = risk_score stocks bonds real_estate cash
           in Inr \<lparr> ps_total_message = message,
                    ps_risk_score = score,
                    ps_risk_level = portfolio_risk_level score,
                    ps_expected_return = expected_return stocks bonds real_estate cash,
                    ps_volatility = volatility stocks bonds real_estate cash,
                    ps_risk_alert = risk_alert score,
                    ps_tax_tips = tax_efficiency_tips (alloc_df stocks bonds real_estate cash) \<rparr>))"

section \<open>The formulas as the specification writes them\<close>

text \<open>
  The specification puts the coefficient first (\<open>0.6*stocks\<close>) and writes \<open>0.10\<close> where
  the script has \<open>0.1\<close>. These three definitions follow its wording, in the same float
  arithmetic, to be compared with \<open>risk_score\<close>, \<open>expected_return\<close> and \<open>volatility\<close>.
\<close>

definition spec_risk_score :: "int \<Rightarrow> int \<Rightarrow> int \<Rightarrow> int \<Rightarrow> pyfloat" where
  "spec_risk_score stocks bonds realEstate cash =
     fdiv (fsub (fsub (fadd (fmul (fl (6 / 10)) (float_of_int stocks))
                            (fmul (fl (3 / 10)) (float_of_int realEstate)))
                      (fmul (fl (4 / 10)) (float_of_int bonds)))
                (fmul (fl (5 / 10)) (float_of_int cash)))
          (float_of_int 100)"

definition spec_expected_return :: "int \<Rightarrow> int \<Rightarrow> int \<Rightarrow> int \<Rightarrow> pyfloat" where
  "spec_expected_return stocks bonds realEstate cash =
     fdiv (fadd (fadd (fadd (fmul (fl (8 / 100)) (float_of_int stocks))
                            (fmul (fl (3 / 100)) (float_of_int bonds)))
                      (fmul (fl (6 / 100)) (float_of_int realEstate)))
                (fmul (fl (2 / 100)) (float_of_int cash)))
          (float_of_int 100)"

definition spec_volatility :: "int \<Rightarrow> int \<Rightarrow> int \<Rightarrow> int \<Rightarrow> pyfloat" where
  "spec_volatility stocks bonds realEstate cash =
     fdiv (fadd (fadd (fadd (fmul (fl (15 / 100)) (float_of_int stocks))
                            (fmul (fl (5 / 100)) (float_of_int bonds)))
                      (fmul (fl (10 / 100)) (float_of_int realEstate)))
                (fmul (fl (1 / 100)) (float_of_int cash)))
          (float_of_int 100)"

section \<open>Facts about the float model\<close>

text \<open>
  \<open>fl\<close> at a few known points: the double nearest to \<open>0.1\<close>, exact values left alone,
  and a tie that goes to the even significand in both directions.
\<close>

lemma fl_examples:
  "fl (1 / 10) = 3602879701896397 / 2 ^ 55 \<and> fl 100 = 100 \<and> fl (- (1 / 4)) = - (1 / 4)
   \<and> fl (1 + 1 / 2 ^ 53) = 1 \<and> fl (1 + 3 / 2 ^ 53) = 1 + 1 / 2 ^ 51"
  by code_simp

lemma fmul_commute: "fmul a b = fmul b a"
  by (simp add: fmul_def mult.commute)

lemma fl_4_10: "fl (4 / 10) = 3602879701896397 / 9007199254740992"
  by code_simp

lemma fl_15_100: "fl (15 / 100) = 5404319552844595 / 36028797018963968"
  by code_simp

lemma fl_16_100: "fl (16 / 100) = 5764607523034235 / 36028797018963968"
  by code_simp

lemma fl_57_1000: "fl (57 / 1000) = 8214565720323785 / 144115188075855872"
  by code_simp

lemma fl_6_10: "fl (6 / 10) = 5404319552844595 / 9007199254740992"
  by code_simp

lemma fl_185_1000: "fl (185 / 1000) = 3332663724254167 / 18014398509481984"
  by code_simp

section \<open>The portfolio builder at particular slider settings\<close>

lemma risk_score_50_30_10_10: "risk_score 50 30 10 10 = 5764607523034235 / 36028797018963968"
  by code_simp

lemma expected_return_50_30_10_10:
  "expected_return 50 30 10 10 = 8214565720323785 / 144115188075855872"
  by code_simp

lemma risk_score_100_0_0_0: "risk_score 100 0 0 0 = 5404319552844595 / 9007199254740992"
  by code_simp

lemma risk_score_50_30_10_5: "risk_score 50 30 10 5 = 3332663724254167 / 18014398509481984"
  by code_simp

lemma risk_score_14_8_61_17: "risk_score 14 8 61 17 = 1351079888211149 / 9007199254740992"
  by code_simp

lemma portfolio_risk_level_cases:
  "portfolio_risk_level x = ''High'' \<or> portfolio_risk_level x = ''Medium''
   \<or> portfolio_risk_level x = ''Low''"
  by (simp add: portfolio_risk_level_def)

lemma level_50_30_10_10: "portfolio_risk_level (risk_score 50 30 10 10) = ''Medium''"
  unfolding portfolio_risk_level_def risk_score_50_30_10_10 fl_4_10 fl_15_100 by simp

text \<open>
  The rounding of the float operations is visible in the level. For the sliders at
  (14, 8, 61, 17), which sum to 100, the exact value of the formula is 0.15, which is
  not above the threshold; the script computes 0.15000000000000002 and shows Medium.
\<close>

lemma rounding_changes_level:
  "(6 / 10 * 14 + 3 / 10 * 61 - 4 / 10 * 8 - 5 / 10 * 17) / 100 = (15 / 100 :: rat)
   \<and> fl (15 / 100) < risk_score 14 8 61 17
   \<and> portfolio_risk_level (risk_score 14 8 61 17) = ''Medium''"
  unfolding portfolio_risk_level_def risk_score_14_8_61_17 fl_4_10 fl_15_100 by simp

text \<open>
  For the band that \<open>risk_level\<close> calls Medium, the alert under the same test
  (lines 299 to 304) is the warning that begins "Moderate Risk".
\<close>

lemma risk_alert_50_30_10_10: "risk_alert (risk_score 50 30 10 10) = St_warning alert_moderate"
  unfolding risk_alert_def risk_score_50_30_10_10 fl_4_10 fl_15_100 by simp

text \<open>
  The builder raises exactly when the sum of the sliders is outside 0 to 100; inside
  that range it returns the message and the metrics of the values as entered.
\<close>

lemma portfolio_builder_raises_iff:
  "(portfolio_builder s b r c = Inl StreamlitAPIException)
     = (s + b + r + c < 0 \<or> 100 < s + b + r + c)"
  by (auto simp add: portfolio_builder_def st_progress_def total_alloc_def Let_def)

lemma portfolio_builder_reached:
  assumes "0 \<le> s + b + r + c" and "s + b + r + c \<le> 100"
  shows "portfolio_builder s b r c =
     Inr \<lparr> ps_total_message = total_message (s + b + r + c),
           ps_risk_score = risk_score s b r c,
           ps_risk_level = portfolio_risk_level (risk_score s b r c),
           ps_expected_return = expected_return s b r c,
           ps_volatility = volatility s b r c,
           ps_risk_alert = risk_alert (risk_score s b r c),
           ps_tax_tips = tax_efficiency_tips (alloc_df s b r c) \<rparr>"
  using assms by (simp add: portfolio_builder_def st_progress_def total_alloc_def Let_def)

lemma total_message_success_iff:
  "(total_message tot = St_success ''Total allocation is 100%.'') = (tot = 100)"
  by (simp add: total_message_def)

section \<open>Facts about the tips\<close>

lemma tax_tips_distinct:
  "distinct [tip_capital_gains, tip_municipal, tip_high_turnover, tip_tax_efficient]"
  by (simp add: tip_capital_gains_def tip_municipal_def tip_high_turnover_def tip_tax_efficient_def)

lemma market_tips_distinct: "distinct [tip_inflation_hedge, tip_equities, tip_stable]"
  by (simp add: tip_inflation_hedge_def tip_equities_def tip_stable_def)

lemma class_exceeds_alloc_df:
  "class_exceeds (alloc_df s b r c) ''Stocks'' n = (n < s)"
  "class_exceeds (alloc_df s b r c) ''Municipal Bonds'' n = False"
  "class_exceeds (alloc_df s b r c) ''High Turnover Funds'' n = False"
  by (simp_all add: class_exceeds_def alloc_df_def)

lemma tax_tips_default:
  "tax_efficiency_tips (alloc_df s b r c) = [if 50 < s then tip_capital_gains else tip_tax_efficient]"
  by (simp add: tax_efficiency_tips_def class_exceeds_alloc_df)

section \<open>Market risk level\<close>

text \<open>
  C1. The market risk level is one of the three distinct strings Low, Moderate and High
  for every triple of indicators. It is High as soon as inflation is above 5,
  unemployment above 8 or the interest rate above 6; otherwise Low when inflation is
  below 2, unemployment below 5 and the interest rate below 3; otherwise Moderate. The
  first test wins: at (6, 1, 1) the level is High.
\<close>

theorem market_risk_level_first_match:
  "market_risk_level inflation unemployment interest_rate \<in> {''Low'', ''Moderate'', ''High''}
   \<and> market_risk_level inflation unemployment interest_rate =
       (if 5 < inflation \<or> 8 < unemployment \<or> 6 < interest_rate then ''High''
        else if inflation < 2 \<and> unemployment < 5 \<and> interest_rate < 3 then ''Low''
        else ''Moderate'')
   \<and> distinct [''Low'', ''Moderate'', ''High'']
   \<and> market_risk_level 6 1 1 = ''High''"
  by (simp add: market_risk_level_def)

section \<open>Portfolio risk level\<close>

text \<open>
  C2, as the claim states it, fails: the claim names the middle level Moderate and
  takes the level from the set Low, Moderate, High. At the default sliders
  (50, 30, 10, 10) the level the script computes is in none of those three.
\<close>

theorem portfolio_risk_level_not_moderate:
  "portfolio_risk_level (risk_score 50 30 10 10) \<notin> {''Low'', ''Moderate'', ''High''}"
  by (simp add: level_50_30_10_10)

text \<open>
  C2, amended. For every allocation the level that line 286 computes from the risk
  score is one of Low, Medium and High: High when the risk score is above 0.4, else
  Medium when it is above 0.15, else Low, the thresholds being the float literals.
\<close>

theorem portfolio_risk_level_thresholds:
  "portfolio_risk_level score =
     (if fl (4 / 10) < score then ''High''
      else if fl (15 / 100) < score then ''Medium'' else ''Low'')
   \<and> portfolio_risk_level (risk_score stocks bonds real_estate cash)
       \<in> {''Low'', ''Medium'', ''High''}"
  using portfolio_risk_level_cases [of "risk_score stocks bonds real_estate cash"]
  by (auto simp add: portfolio_risk_level_def)

section \<open>Validity of the allocation\<close>

text \<open>
  C3 asks that the builder report an allocation as valid exactly when the four
  percentages sum to 100, and that it compute the risk score, the level, the expected
  return and the volatility from the percentages as entered also when they do not.
  The script does so only for sums up to 100. With the sliders at (50, 30, 10, 11) the
  sum is 101, the progress bar of line 276 raises, and the run ends there: the message
  that lines 279 and 280 would give for 101 is never shown and no metric is computed.
  One step lower, at (50, 30, 10, 10), the builder reports success, and at
  (50, 30, 10, 5) it reports the error for 95 together with the score of the values as
  entered, the float 0.185.
\<close>

theorem allocation_above_100_raises:
  "total_alloc 50 30 10 11 = 101
   \<and> portfolio_builder 50 30 10 11 = Inl StreamlitAPIException
   \<and> total_message 101 = St_error ''Total allocation is 101%. It must sum to 100%.''
   \<and> map_sum id ps_total_message (portfolio_builder 50 30 10 10)
       = Inr (St_success ''Total allocation is 100%.'')
   \<and> map_sum id ps_total_message (portfolio_builder 50 30 10 5)
       = Inr (St_error ''Total allocation is 95%. It must sum to 100%.'')
   \<and> map_sum id ps_risk_score (portfolio_builder 50 30 10 5) = Inr (fl (185 / 1000))"
proof -
  have sum: "total_alloc 50 30 10 11 = 101"
    by (simp add: total_alloc_def)
  have raises: "portfolio_builder 50 30 10 11 = Inl StreamlitAPIException"
    by (simp add: portfolio_builder_raises_iff)
  have attempted: "total_message 101 = St_error ''Total allocation is 101%. It must sum to 100%.''"
    by (simp add: total_message_def str_int_def digit_char_def)
  have ok: "map_sum id ps_total_message (portfolio_builder 50 30 10 10)
       = Inr (St_success ''Total allocation is 100%.'')"
    by (simp add: portfolio_builder_reached total_message_def)
  have bad: "map_sum id ps_total_message (portfolio_builder 50 30 10 5)
       = Inr (St_error ''Total allocation is 95%. It must sum to 100%.'')"
    by (simp add: portfolio_builder_reached total_message_def str_int_def digit_char_def)
  have "map_sum id ps_risk_score (portfolio_builder 50 30 10 5) = Inr (risk_score 50 30 10 5)"
    by (simp add: portfolio_builder_reached)
  then have score: "map_sum id ps_risk_score (portfolio_builder 50 30 10 5) = Inr (fl (185 / 1000))"
    by (simp only: risk_score_50_30_10_5 fl_185_1000)
  show ?thesis
    using sum raises attempted ok bad score by blast
qed

section \<open>Risk score, expected return and volatility\<close>

text \<open>
  C4, as the claim states it, fails at its own example: at (50, 30, 10, 10) the score
  and the expected return are the floats 0.16 and 0.057, but the level is not Moderate.
\<close>

theorem default_allocation_not_moderate:
  "\<not> (risk_score 50 30 10 10 = fl (16 / 100)
      \<and> portfolio_risk_level (risk_score 50 30 10 10) = ''Moderate''
      \<and> expected_return 50 30 10 10 = fl (57 / 1000))"
  by (simp add: level_50_30_10_10)

text \<open>
  C4, amended. The script's risk score, expected return and volatility are the
  specification's three formulas, evaluated in float arithmetic; at (50, 30, 10, 10)
  the risk score is the float 0.16, the level is Medium, and the expected return is the
  float 0.057.
\<close>

theorem portfolio_formulas:
  "risk_score stocks bonds real_estate cash = spec_risk_score stocks bonds real_estate cash
   \<and> expected_return stocks bonds real_estate cash
       = spec_expected_return stocks bonds real_estate cash
   \<and> volatility stocks bonds real_estate cash = spec_volatility stocks bonds real_estate cash
   \<and> risk_score 50 30 10 10 = fl (16 / 100)
   \<and> portfolio_risk_level (risk_score 50 30 10 10) = ''Medium''
   \<and> expected_return 50 30 10 10 = fl (57 / 1000)"
proof -
  have "(10::rat) / 100 = 1 / 10" by simp
  then have "risk_score stocks bonds real_estate cash = spec_risk_score stocks bonds real_estate cash"
    and "expected_return stocks bonds real_estate cash
          = spec_expected_return stocks bonds real_estate cash"
    and "volatility stocks bonds real_estate cash = spec_volatility stocks bonds real_estate cash"
    by (simp_all only: risk_score_def spec_risk_score_def expected_return_def
        spec_expected_return_def volatility_def spec_volatility_def
        fmul_commute [of "fl _" "float_of_int _"])
  moreover have "risk_score 50 30 10 10 = fl (16 / 100)"
    by (simp only: risk_score_50_30_10_10 fl_16_100)
  moreover have "expected_return 50 30 10 10 = fl (57 / 1000)"
    by (simp only: expected_return_50_30_10_10 fl_57_1000)
  ultimately show ?thesis
    using level_50_30_10_10 by simp
qed

section \<open>Suggestions for a goal\<close>

text \<open>
  C5. For the goal Retirement the suggestions are always two, in this order: the
  retirement-accounts tip, then the inflation-protection tip when inflation is above 4
  and the balanced-mix tip otherwise. With inflation 5 the list ends with the
  inflation-protection tip, with inflation 3 with the balanced-mix tip; the two differ.
\<close>

theorem retirement_two_tips:
  "generate_suggestions ''Retirement'' gdp inflation unemployment interest_rate =
     [msg_retirement_base,
      if 4 < inflation then msg_retirement_inflation else msg_retirement_balanced]
   \<and> length (generate_suggestions ''Retirement'' gdp inflation unemployment interest_rate) = 2
   \<and> last (generate_suggestions ''Retirement'' gdp 5 unemployment interest_rate)
       = msg_retirement_inflation
   \<and> last (generate_suggestions ''Retirement'' gdp 3 unemployment interest_rate)
       = msg_retirement_balanced
   \<and> msg_retirement_inflation \<noteq> msg_retirement_balanced"
  by (simp add: generate_suggestions_def msg_retirement_inflation_def msg_retirement_balanced_def)

text \<open>
  C6. For every goal other than Retirement, Buying a Home and Wealth Growth, and for
  all indicators, the suggestions are the single placeholder tip. The function is
  total: no input makes it fail.
\<close>

theorem other_goal_placeholder:
  assumes "goal \<noteq> ''Retirement''" and "goal \<noteq> ''Buying a Home''" and "goal \<noteq> ''Wealth Growth''"
  shows "generate_suggestions goal gdp inflation unemployment interest_rate = [msg_select_goal]"
  using assms by (simp add: generate_suggestions_def)

theorem other_goal_placeholder_witness:
  "''Short-Term Savings'' \<noteq> ''Retirement'' \<and> ''Short-Term Savings'' \<noteq> ''Buying a Home''
   \<and> ''Short-Term Savings'' \<noteq> ''Wealth Growth''
   \<and> generate_suggestions ''Short-Term Savings'' 3 9 4 7 = [msg_select_goal]
   \<and> generate_suggestions ''Capital Preservation'' 3 9 4 7 = [msg_select_goal]
   \<and> generate_suggestions ''Education'' (- 2) 1 12 0 = [msg_select_goal]"
  using other_goal_placeholder [of "''Short-Term Savings''" 3 9 4 7]
    other_goal_placeholder [of "''Capital Preservation''" 3 9 4 7]
    other_goal_placeholder [of "''Education''" "- 2" 1 12 0]
  by simp

section \<open>Tax tips\<close>

text \<open>
  C7. Whenever the stocks allocation is above 50 the tax tips contain the long-term
  capital-gains tip: for any data frame whose first Stocks row is above 50, and so for
  the frame the builder makes of the four sliders. At (100, 0, 0, 0) the risk score is the float 0.6, the level
  is High and the capital-gains tip is among the tips.
\<close>

theorem stocks_above_50_capital_gains:
  "(class_exceeds df ''Stocks'' 50 \<longrightarrow> tip_capital_gains \<in> set (tax_efficiency_tips df))
   \<and> (50 < stocks \<longrightarrow>
        tip_capital_gains \<in> set (tax_efficiency_tips (alloc_df stocks bonds real_estate cash)))
   \<and> risk_score 100 0 0 0 = fl (6 / 10)
   \<and> portfolio_risk_level (risk_score 100 0 0 0) = ''High''
   \<and> tip_capital_gains \<in> set (tax_efficiency_tips (alloc_df 100 0 0 0))"
proof -
  have gen: "class_exceeds df ''Stocks'' 50 \<longrightarrow> tip_capital_gains \<in> set (tax_efficiency_tips df)"
    by (simp add: tax_efficiency_tips_def Let_def)
  have builder: "50 < stocks \<longrightarrow>
        tip_capital_gains \<in> set (tax_efficiency_tips (alloc_df stocks bonds real_estate cash))"
    by (simp add: tax_tips_default)
  have score: "risk_score 100 0 0 0 = fl (6 / 10)"
    by (simp only: risk_score_100_0_0_0 fl_6_10)
  have level: "portfolio_risk_level (risk_score 100 0 0 0) = ''High''"
    unfolding portfolio_risk_level_def risk_score_100_0_0_0 fl_4_10 fl_15_100 by simp
  have tip: "tip_capital_gains \<in> set (tax_efficiency_tips (alloc_df 100 0 0 0))"
    by (simp add: tax_tips_default)
  show ?thesis
    using gen builder score level tip by blast
qed

theorem stocks_above_50_capital_gains_witness:
  "class_exceeds [(''Stocks'', 60), (''Municipal Bonds'', 40)] ''Stocks'' 50
   \<and> tip_capital_gains \<in> set (tax_efficiency_tips [(''Stocks'', 60), (''Municipal Bonds'', 40)])
   \<and> (50::int) < 51
   \<and> tip_capital_gains \<in> set (tax_efficiency_tips (alloc_df 51 49 0 0))"
proof -
  have a: "class_exceeds [(''Stocks'', 60), (''Municipal Bonds'', 40)] ''Stocks'' 50"
    by (simp add: class_exceeds_def)
  have b: "(50::int) < 51" by simp
  show ?thesis
    using a b
      stocks_above_50_capital_gains [of "[(''Stocks'', 60), (''Municipal Bonds'', 40)]" 51 49 0 0]
    by blast
qed

text \<open>
  C9. For the builder's frame of the four classes Stocks, Bonds, Real Estate and Cash,
  the tax tips are exactly one tip: the capital-gains tip when stocks is strictly above
  50 and the tax-efficient fallback otherwise, so at stocks = 50 only the fallback. The
  Municipal Bonds and High Turnover Funds tips are never among them.
\<close>

theorem default_frame_one_tax_tip:
  "tax_efficiency_tips (alloc_df stocks bonds real_estate cash)
     = [if 50 < stocks then tip_capital_gains else tip_tax_efficient]
   \<and> length (tax_efficiency_tips (alloc_df stocks bonds real_estate cash)) = 1
   \<and> tax_efficiency_tips (alloc_df 50 bonds real_estate cash) = [tip_tax_efficient]
   \<and> tip_municipal \<notin> set (tax_efficiency_tips (alloc_df stocks bonds real_estate cash))
   \<and> tip_high_turnover \<notin> set (tax_efficiency_tips (alloc_df stocks bonds real_estate cash))
   \<and> tip_capital_gains \<noteq> tip_tax_efficient"
  using tax_tips_distinct by (auto simp add: tax_tips_default)

section \<open>Diversification tips of the market summary\<close>

text \<open>
  C10. The inflation-hedge tip is among the market tips exactly when inflation is above
  3.0, the equities tip exactly when GDP growth is above 2.5, and the stable-market tip
  exactly when neither holds, in which case it is the only tip. The list is never empty.
\<close>

theorem market_tips_rules:
  "(tip_inflation_hedge \<in> set (market_tips inflation gdp_growth)) = (3 < inflation)
   \<and> (tip_equities \<in> set (market_tips inflation gdp_growth)) = (5 / 2 < gdp_growth)
   \<and> (tip_stable \<in> set (market_tips inflation gdp_growth))
       = (\<not> 3 < inflation \<and> \<not> 5 / 2 < gdp_growth)
   \<and> (market_tips inflation gdp_growth = [tip_stable])
       = (\<not> 3 < inflation \<and> \<not> 5 / 2 < gdp_growth)
   \<and> market_tips inflation gdp_growth \<noteq> []"
  using market_tips_distinct by (auto simp add: market_tips_def)

end
